theory Spec2Isabelle
  imports Main "HOL-Library.Sublist"
begin

section \<open>Values of the Go program\<close>

text \<open>
  The package \<open>device\<close> wraps an MQTT client. \<open>Shadow\<close> is \<open>[]byte\<close>; a Go
  \<open>error\<close> is kept with its message and with the place it was made: returned by a
  library call (TLS, file system, MQTT token, HTTP, JSON), made by \<open>errors.New\<close>, or
  made by \<open>fmt.Errorf\<close>.
\<close>

type_synonym topic = string
type_synonym Shadow = string
type_synonym ThingName = string
type_synonym chan_id = nat

datatype go_error = LibError string | ErrorsNew string | Errorf string

fun error_string :: "go_error \<Rightarrow> string" where
  "error_string (LibError m) = m"
| "error_string (ErrorsNew m) = m"
| "error_string (Errorf m) = m"

section \<open>Channels\<close>

text \<open>
  \<open>make(chan Shadow)\<close> and \<open>make(chan error)\<close> take no capacity: the channels are
  unbuffered. A channel of the store keeps its capacity, the number of queued values and
  whether it was closed.
\<close>

record chan =
  chan_cap :: nat
  chan_len :: nat
  chan_closed :: bool

definition unbuffered :: chan where
  "unbuffered = \<lparr>chan_cap = 0, chan_len = 0, chan_closed = False\<rparr>"

section \<open>The MQTT client\<close>

text \<open>
  A message handler registered with \<open>Subscribe\<close> is one of the two closures of the
  source: \<open>shadowChan <- msg.Payload()\<close> or
  \<open>errChan <- errors.New(string(msg.Payload()))\<close>.
\<close>

datatype handler = SendPayload chan_id | SendError chan_id


datatype call =
    SubscribeCall topic handler
  | PublishCall topic Shadow
  | UnsubscribeCall "topic list"

text \<open>
  The client is the external library paho.mqtt; the session only sees it through
  \<open>Subscribe\<close>, \<open>Publish\<close>, \<open>Unsubscribe\<close> and the token each returns. Its state
  here: the routes (topic to handler), the log of the calls made with the error of each
  token, the answers of the transport (\<open>token_error n\<close> is \<open>token.Error()\<close> of call number
  \<open>n\<close>, \<open>None\<close> for \<open>nil\<close>), and the store of the channels the session made. A call
  whose token carries an error leaves the routes as they were.
\<close>

record client =
  subs :: "topic \<rightharpoonup> handler"
  calls :: "(call \<times> go_error option) list"
  token_error :: "nat \<Rightarrow> go_error option"
  chans :: "chan_id \<rightharpoonup> chan"
  next_chan :: chan_id

definition reply :: "client \<Rightarrow> go_error option" where
  "reply s = token_error s (length (calls s))"

definition mqtt_Subscribe :: "topic \<Rightarrow> handler \<Rightarrow> client \<Rightarrow> go_error option \<times> client" where
  "mqtt_Subscribe tp h s =
     (let r = reply s in
      (r, s\<lparr>subs := (if r = None then (subs s)(tp \<mapsto> h) else subs s),
             calls := calls s @ [(SubscribeCall tp h, r)]\<rparr>))"

definition mqtt_Publish :: "topic \<Rightarrow> Shadow \<Rightarrow> client \<Rightarrow> go_error option \<times> client" where
  "mqtt_Publish tp p s =
     (let r = reply s in (r, s\<lparr>calls := calls s @ [(PublishCall tp p, r)]\<rparr>))"

fun remove_routes :: "topic list \<Rightarrow> (topic \<rightharpoonup> handler) \<Rightarrow> (topic \<rightharpoonup> handler)" where
  "remove_routes [] m = m"
| "remove_routes (tp # tps) m = remove_routes tps (m(tp := None))"

definition mqtt_Unsubscribe :: "topic list \<Rightarrow> client \<Rightarrow> go_error option \<times> client" where
  "mqtt_Unsubscribe tps s =
     (let r = reply s in
      (r, s\<lparr>subs := (if r = None then remove_routes tps (subs s) else subs s),
             calls := calls s @ [(UnsubscribeCall tps, r)]\<rparr>))"

definition make_chan :: "client \<Rightarrow> chan_id \<times> client" where
  "make_chan s =
     (next_chan s, s\<lparr>chans := (chans s)(next_chan s \<mapsto> unbuffered), next_chan := Suc (next_chan s)\<rparr>)"

definition new_calls :: "client \<Rightarrow> client \<Rightarrow> (call \<times> go_error option) list" where
  "new_calls s s' = drop (length (calls s)) (calls s')"

section \<open>What the environment does while a call waits\<close>

text \<open>
  While the session waits in \<open>select\<close>, the broker delivers messages on topics and
  somebody may close a channel. The events come in the order they happen; when they run
  out and nothing was received, the receive never returns.
\<close>

datatype env_event = Deliver topic Shadow | CloseChan chan_id

datatype select_result =
    RecvShadow "Shadow option"
  | RecvErr "go_error option"
  | NothingReady

text \<open>
  \<open>select\<close> over \<open>shadowChan\<close> and \<open>errChan\<close>: the first event that reaches one of
  the two channels decides. A delivery reaches a channel through the handler that the
  routes hold for its topic; \<open>None\<close> is the receive with \<open>ok = false\<close> of a closed channel.
\<close>

fun select2 :: "chan_id \<Rightarrow> chan_id \<Rightarrow> env_event list \<Rightarrow> (topic \<rightharpoonup> handler) \<Rightarrow> select_result" where
  "select2 sc ec [] routes = NothingReady"
| "select2 sc ec (Deliver tp p # evs) routes =
     (case routes tp of
        None \<Rightarrow> select2 sc ec evs routes
      | Some (SendPayload c) \<Rightarrow> if c = sc then RecvShadow (Some p) else select2 sc ec evs routes
      | Some (SendError c) \<Rightarrow>
          if c = ec then RecvErr (Some (ErrorsNew p)) else select2 sc ec evs routes)"
| "select2 sc ec (CloseChan c # evs) routes =
     (if c = sc then RecvShadow None
      else if c = ec then RecvErr None
      else select2 sc ec evs routes)"

datatype 'a outcome = Returns 'a | Blocks

section \<open>The thing\<close>

record Thing =
  thingName :: ThingName

definition topic_get :: "Thing \<Rightarrow> topic" where
  "topic_get t = ''$aws/things/'' @ thingName t @ ''/shadow/get''"

definition topic_get_accepted :: "Thing \<Rightarrow> topic" where
  "topic_get_accepted t = ''$aws/things/'' @ thingName t @ ''/shadow/get/accepted''"

definition topic_get_rejected :: "Thing \<Rightarrow> topic" where
  "topic_get_rejected t = ''$aws/things/'' @ thingName t @ ''/shadow/get/rejected''"


definition topic_update_accepted :: "Thing \<Rightarrow> topic" where
  "topic_update_accepted t = ''$aws/things/'' @ thingName t @ ''/shadow/update/accepted''"

definition topic_update_rejected :: "Thing \<Rightarrow> topic" where
  "topic_update_rejected t = ''$aws/things/'' @ thingName t @ ''/shadow/update/rejected''"


definition topic_delete :: "Thing \<Rightarrow> topic" where
  "topic_delete t = ''$aws/things/'' @ thingName t @ ''/shadow/delete''"

definition topic_delete_accepted :: "Thing \<Rightarrow> topic" where
  "topic_delete_accepted t = ''$aws/things/'' @ thingName t @ ''/shadow/delete/accepted''"

definition topic_delete_rejected :: "Thing \<Rightarrow> topic" where
  "topic_delete_rejected t = ''$aws/things/'' @ thingName t @ ''/shadow/delete/rejected''"

text \<open>\<open>unsubscribe\<close>: the token's error is the result.\<close>

definition unsubscribe :: "topic list \<Rightarrow> client \<Rightarrow> go_error option \<times> client" where
  "unsubscribe topics s = mqtt_Unsubscribe topics s"

text \<open>
  A \<open>return\<close> under \<open>defer t.unsubscribe(...)\<close>: the deferred call runs, its result is
  dropped, then the function returns.
\<close>

definition return_deferred :: "topic list \<Rightarrow> 'a \<Rightarrow> client \<Rightarrow> 'a outcome \<times> client" where
  "return_deferred topics r s = (Returns r, snd (unsubscribe topics s))"

text \<open>\<open>GetThingShadow\<close>: the result is the pair \<open>(Shadow, error)\<close>, \<open>None\<close> for \<open>nil\<close>.\<close>

definition GetThingShadow ::
  "Thing \<Rightarrow> env_event list \<Rightarrow> client \<Rightarrow> (Shadow option \<times> go_error option) outcome \<times> client" where
  "GetThingShadow t evs s0 =
     (let (shadowChan, s1) = make_chan s0;
          (errChan, s2) = make_chan s1;
          deferred = [topic_get_accepted t, topic_get_rejected t];
          (e1, s3) = mqtt_Subscribe (topic_get_accepted t) (SendPayload shadowChan) s2
      in if e1 \<noteq> None then return_deferred deferred (None, e1) s3
      else let (e2, s4) = mqtt_Subscribe (topic_get_rejected t) (SendError errChan) s3
      in if e2 \<noteq> None then return_deferred deferred (None, e2) s4
      else let (e3, s5) = mqtt_Publish (topic_get t) ''{}'' s4
      in if e3 \<noteq> None then return_deferred deferred (None, e3) s5
      else (case select2 shadowChan errChan evs (subs s5) of
              RecvShadow None \<Rightarrow>
                return_deferred deferred (None, Some (ErrorsNew ''failed to read from shadow channel'')) s5
            | RecvShadow (Some p) \<Rightarrow> return_deferred deferred (Some p, None) s5
            | RecvErr None \<Rightarrow>
                return_deferred deferred (None, Some (ErrorsNew ''failed to read from error channel'')) s5
            | RecvErr (Some err) \<Rightarrow> return_deferred deferred (None, Some err) s5
            | NothingReady \<Rightarrow> (Blocks, s5)))"

text \<open>\<open>DeleteThingShadow\<close>: the result is the \<open>error\<close>, \<open>None\<close> for \<open>nil\<close>.\<close>

definition DeleteThingShadow ::
  "Thing \<Rightarrow> env_event list \<Rightarrow> client \<Rightarrow> go_error option outcome \<times> client" where
  "DeleteThingShadow t evs s0 =
     (let (shadowChan, s1) = make_chan s0;
          (errChan, s2) = make_chan s1;
          deferred = [topic_delete_accepted t, topic_delete_rejected t];
          (e1, s3) = mqtt_Subscribe (topic_delete_accepted t) (SendPayload shadowChan) s2
      in if e1 \<noteq> None then return_deferred deferred e1 s3
      else let (e2, s4) = mqtt_Subscribe (topic_delete_rejected t) (SendError errChan) s3
      in if e2 \<noteq> None then return_deferred deferred e2 s4
      else let (e3, s5) = mqtt_Publish (topic_delete t) ''{}'' s4
      in if e3 \<noteq> None then return_deferred deferred e3 s5
      else (case select2 shadowChan errChan evs (subs s5) of
              RecvShadow None \<Rightarrow>
                return_deferred deferred (Some (ErrorsNew ''failed to read from shadow channel'')) s5
            | RecvShadow (Some p) \<Rightarrow> return_deferred deferred None s5
            | RecvErr None \<Rightarrow>
                return_deferred deferred (Some (ErrorsNew ''failed to read from error channel'')) s5
            | RecvErr (Some err) \<Rightarrow> return_deferred deferred (Some err) s5
            | NothingReady \<Rightarrow> (Blocks, s5)))"



text \<open>
  \<open>SubscribeForThingShadowChanges\<close>: the result is \<open>(chan Shadow, chan ShadowError, error)\<close>,
  \<open>None\<close> for a \<open>nil\<close> channel. \<open>ShadowError\<close> is \<open>Shadow\<close>, so both handlers send the
  payload.
\<close>

definition SubscribeForThingShadowChanges ::
  "Thing \<Rightarrow> client \<Rightarrow> (chan_id option \<times> chan_id option \<times> go_error option) \<times> client" where
  "SubscribeForThingShadowChanges t s0 =
     (let (shadowChan, s1) = make_chan s0;
          (shadowErrChan, s2) = make_chan s1;
          (e1, s3) = mqtt_Subscribe (topic_update_accepted t) (SendPayload shadowChan) s2
      in if e1 \<noteq> None then ((None, None, e1), s3)
      else let (e2, s4) = mqtt_Subscribe (topic_update_rejected t) (SendPayload shadowErrChan) s3
      in if e2 \<noteq> None then ((None, None, e2), s4)
      else ((Some shadowChan, Some shadowErrChan, None), s4))"

section \<open>Custom topics: \<open>path.Join\<close>\<close>


fun join_slash :: "string list \<Rightarrow> string" where
  "join_slash [] = []"
| "join_slash [x] = x"
| "join_slash (x # y # ys) = x @ ''/'' @ join_slash (y # ys)"











section \<open>Sending to and receiving from a channel\<close>








definition fresh_client :: "(nat \<Rightarrow> go_error option) \<Rightarrow> client" where
  "fresh_client answers =
     \<lparr>subs = Map.empty, calls = [], token_error = answers, chans = Map.empty, next_chan = 0\<rparr>"

section \<open>\<open>NewThing\<close>\<close>

text \<open>
  The file system, the TLS library and the broker are the surroundings of \<open>NewThing\<close>:
  what loading the key pair, reading the CA file and connecting answer. A
  \<open>tls.Certificate\<close> is its chain; the zero value is the empty chain.
\<close>

record KeyPair =
  PrivateKeyPath :: string
  CertificatePath :: string
  CACertificatePath :: string

type_synonym Certificate = "string list"

record tls_Config =
  Certificates :: "Certificate list"
  RootCAs :: "string list"

record ClientOptions =
  Servers :: "string list"
  MaxReconnectInterval :: nat
  ClientID :: string
  TLSConfig :: tls_Config

record surroundings =
  LoadX509KeyPair :: "string \<Rightarrow> string \<Rightarrow> go_error + Certificate"
  ReadFile :: "string \<Rightarrow> go_error + string"
  Connect :: "ClientOptions \<Rightarrow> go_error option"

text \<open>
  The result is \<open>(*Thing, error)\<close>; the thing holds the connected client, here the
  options it was made from. The second assignment to \<open>err\<close> replaces the first.
\<close>

definition NewThing ::
  "KeyPair \<Rightarrow> string \<Rightarrow> ThingName \<Rightarrow> surroundings \<Rightarrow> (ClientOptions \<times> Thing) option \<times> go_error option" where
  "NewThing keyPair awsEndpoint thing_name sys =
     (let (tlsCert, err) =
            (case LoadX509KeyPair sys (CertificatePath keyPair) (PrivateKeyPath keyPair) of
               Inl e \<Rightarrow> ([], Some e) | Inr c \<Rightarrow> (c, None));
          (caPem, err) =
            (case ReadFile sys (CACertificatePath keyPair) of
               Inl e \<Rightarrow> ([], Some e) | Inr b \<Rightarrow> (b, None))
      in if err \<noteq> None then (None, err)
      else let tlsConfig = \<lparr>Certificates = [tlsCert], RootCAs = [caPem]\<rparr>
      in if err \<noteq> None then (None, err)
      else let awsServerURL = ''ssl://'' @ awsEndpoint @ '':8883'';
               mqttOpts = \<lparr>Servers = [awsServerURL], MaxReconnectInterval = 1,
                           ClientID = thing_name, TLSConfig = tlsConfig\<rparr>;
               tokenError = Connect sys mqttOpts
      in if tokenError \<noteq> None then (None, tokenError)
      else (Some (mqttOpts, \<lparr>thingName = thing_name\<rparr>), None))"

section \<open>\<open>GetCredentials\<close>\<close>

record Service =
  svc_url :: string
  svc_thingName :: string
  svc_tlsCert :: Certificate

record Output =
  AccessKeyId :: string
  SecretAccessKey :: string
  SessionToken :: string
  Expiration :: string

definition no_Output :: Output where
  "no_Output = \<lparr>AccessKeyId = [], SecretAccessKey = [], SessionToken = [], Expiration = []\<rparr>"

record http_Client =
  client_Certificates :: "Certificate list"
  Timeout_seconds :: nat

record http_Request =
  Method :: string
  URL :: string
  Header :: "(string \<times> string) list"

record http_Response =
  StatusCode :: int
  Body :: "go_error + string"

text \<open>
  The HTTP and JSON libraries are the surroundings of \<open>GetCredentials\<close>: whether
  \<open>http.NewRequest\<close> refuses the method and URL, what \<open>client.Do\<close> answers, what reading
  the body gives, and what the decoder makes of the body (the \<open>Credentials\<close> field of
  the decoded struct, or its error).
\<close>

record web =
  NewRequest_error :: "string \<Rightarrow> string \<Rightarrow> go_error option"
  Do :: "http_Client \<Rightarrow> http_Request \<Rightarrow> go_error + http_Response"
  json_Decode :: "string \<Rightarrow> go_error + Output"

text \<open>\<open>%d\<close>: a decimal numeral, with a minus sign below zero.\<close>

fun decimal :: "nat \<Rightarrow> string" where
  "decimal n =
     (if n < 10 then [''0123456789'' ! n]
      else decimal (n div 10) @ [''0123456789'' ! (n mod 10)])"

definition format_d :: "int \<Rightarrow> string" where
  "format_d i = (if i < 0 then ''-'' @ decimal (nat (- i)) else decimal (nat i))"

definition GetCredentials :: "Service \<Rightarrow> web \<Rightarrow> Output \<times> go_error option" where
  "GetCredentials svc w =
     (let client = \<lparr>client_Certificates = [svc_tlsCert svc], Timeout_seconds = 10\<rparr>
      in case NewRequest_error w ''GET'' (svc_url svc) of
        Some err \<Rightarrow>
          (no_Output, Some (Errorf (''failed to create the credentials request: '' @ error_string err)))
      | None \<Rightarrow>
          (let req = \<lparr>Method = ''GET'', URL = svc_url svc,
                      Header = [(''x-amzn-iot-thingname'', svc_thingName svc)]\<rparr>
           in case Do w client req of
             Inl err \<Rightarrow>
               (no_Output,
                Some (Errorf (''failed to perform the GET credentials request: '' @ error_string err)))
           | Inr resp \<Rightarrow>
               if StatusCode resp \<noteq> 200 then
                 (case Body resp of
                    Inl err \<Rightarrow>
                      (no_Output, Some (Errorf (''failed to parse the response body: '' @ error_string err)))
                  | Inr body \<Rightarrow>
                      (no_Output,
                       Some (Errorf (''the request has failed with the status code: ''
                                     @ format_d (StatusCode resp) @ ''; message: '' @ body))))
               else
                 (case Body resp of
                    Inl err \<Rightarrow>
                      (no_Output,
                       Some (Errorf (''failed to parse credentials response body: '' @ error_string err)))
                  | Inr body \<Rightarrow>
                      (case json_Decode w body of
                         Inl err \<Rightarrow>
                           (no_Output,
                            Some (Errorf (''failed to parse credentials response body: ''
                                          @ error_string err)))
                       | Inr out \<Rightarrow> (out, None)))))"

section \<open>Reading the log of calls\<close>

fun is_publish :: "call \<times> go_error option \<Rightarrow> bool" where
  "is_publish (PublishCall tp p, e) = True"
| "is_publish (c, e) = False"

text \<open>
  Every publish of the log comes after an acknowledged subscribe of topic \<open>a\<close> and one of
  topic \<open>r\<close>, neither unsubscribed since; the two flags say what holds at the start.
\<close>

fun subscribed_before_publish ::
  "topic \<Rightarrow> topic \<Rightarrow> bool \<Rightarrow> bool \<Rightarrow> (call \<times> go_error option) list \<Rightarrow> bool" where
  "subscribed_before_publish a r ha hr [] = True"
| "subscribed_before_publish a r ha hr ((SubscribeCall tp h, e) # cs) =
     subscribed_before_publish a r (ha \<or> (tp = a \<and> e = None)) (hr \<or> (tp = r \<and> e = None)) cs"
| "subscribed_before_publish a r ha hr ((PublishCall tp p, e) # cs) =
     (ha \<and> hr \<and> subscribed_before_publish a r ha hr cs)"
| "subscribed_before_publish a r ha hr ((UnsubscribeCall tps, e) # cs) =
     subscribed_before_publish a r (ha \<and> a \<notin> set tps) (hr \<and> r \<notin> set tps) cs"






section \<open>Concrete surroundings\<close>

text \<open>A transport that acknowledges every call, and a client on it with no route yet.\<close>

definition acknowledging :: "nat \<Rightarrow> go_error option" where
  "acknowledging n = None"

text \<open>A transport that loses its connection after the first call and refuses the second.\<close>

definition refusing_second :: "nat \<Rightarrow> go_error option" where
  "refusing_second n = (if n = 1 then Some (LibError ''Not Connected'') else None)"

definition dropped_client :: client where
  "dropped_client = fresh_client refusing_second"

definition connected_client :: client where
  "connected_client = fresh_client acknowledging"

definition thing_t :: Thing where
  "thing_t = \<lparr>thingName = ''t''\<rparr>"

text \<open>
  A machine where the certificate file is missing, the CA file is there, and a broker that
  accepts the connection.
\<close>

definition missing_certificate :: surroundings where
  "missing_certificate =
     \<lparr>LoadX509KeyPair = (\<lambda>certFile keyFile. Inl (LibError ''open cert.pem: no such file or directory'')),
      ReadFile = (\<lambda>name. Inr ''-----BEGIN CERTIFICATE-----''),
      Connect = (\<lambda>opts. None)\<rparr>"

definition some_key_pair :: KeyPair where
  "some_key_pair =
     \<lparr>PrivateKeyPath = ''private.key'', CertificatePath = ''cert.pem'',
      CACertificatePath = ''root.ca.pem''\<rparr>"

text \<open>
  A credentials endpoint that answers 200 with a body cut short, on which the decoder
  reports the end of the input.
\<close>

definition truncated_answer :: web where
  "truncated_answer =
     \<lparr>NewRequest_error = (\<lambda>method u. None),
      Do = (\<lambda>c r. Inr \<lparr>StatusCode = 200, Body = Inr ''[1, 2''\<rparr>),
      json_Decode = (\<lambda>body. Inl (LibError ''unexpected EOF''))\<rparr>"

definition some_service :: Service where
  "some_service =
     \<lparr>svc_url = ''https://example.invalid/role-aliases/a/credentials'', svc_thingName = ''t'',
      svc_tlsCert = [''cert'']\<rparr>"

text \<open>
  A credentials endpoint that refuses the certificate, and one that answers 200 with a body
  the decoder accepts.
\<close>

definition forbidden_answer :: web where
  "forbidden_answer =
     \<lparr>NewRequest_error = (\<lambda>method u. None),
      Do = (\<lambda>c r. Inr \<lparr>StatusCode = 403, Body = Inr ''Invalid thing name passed''\<rparr>),
      json_Decode = (\<lambda>body. Inl (LibError ''unexpected EOF''))\<rparr>"

definition some_Output :: Output where
  "some_Output =
     \<lparr>AccessKeyId = ''ASIA'', SecretAccessKey = ''secret'', SessionToken = ''token'',
      Expiration = ''2026-01-01T00:00:00Z''\<rparr>"

definition credentials_answer :: web where
  "credentials_answer =
     \<lparr>NewRequest_error = (\<lambda>method u. None),
      Do = (\<lambda>c r. Inr \<lparr>StatusCode = 200, Body = Inr ''{...}''\<rparr>),
      json_Decode = (\<lambda>body. Inr some_Output)\<rparr>"

section \<open>The calls each operation makes\<close>

lemmas transport_defs = make_chan_def mqtt_Subscribe_def mqtt_Publish_def mqtt_Unsubscribe_def
  unsubscribe_def return_deferred_def reply_def new_calls_def

lemma GetThingShadow_new_calls:
  "new_calls s (snd (GetThingShadow t evs s)) =
     (let n = length (calls s);
          a = token_error s n; b = token_error s (Suc n); c = token_error s (Suc (Suc n));
          sub1 = (SubscribeCall (topic_get_accepted t) (SendPayload (next_chan s)), a);
          sub2 = (SubscribeCall (topic_get_rejected t) (SendError (Suc (next_chan s))), b);
          pub = (PublishCall (topic_get t) ''{}'', c);
          unsub = UnsubscribeCall [topic_get_accepted t, topic_get_rejected t]
      in if a \<noteq> None then [sub1, (unsub, b)]
         else if b \<noteq> None then [sub1, sub2, (unsub, c)]
         else if c \<noteq> None then [sub1, sub2, pub, (unsub, token_error s (Suc (Suc (Suc n))))]
         else if fst (GetThingShadow t evs s) = Blocks then [sub1, sub2, pub]
         else [sub1, sub2, pub, (unsub, token_error s (Suc (Suc (Suc n))))])"
  by (simp add: GetThingShadow_def transport_defs Let_def split: select_result.splits option.splits)

lemma DeleteThingShadow_new_calls:
  "new_calls s (snd (DeleteThingShadow t evs s)) =
     (let n = length (calls s);
          a = token_error s n; b = token_error s (Suc n); c = token_error s (Suc (Suc n));
          sub1 = (SubscribeCall (topic_delete_accepted t) (SendPayload (next_chan s)), a);
          sub2 = (SubscribeCall (topic_delete_rejected t) (SendError (Suc (next_chan s))), b);
          pub = (PublishCall (topic_delete t) ''{}'', c);
          unsub = UnsubscribeCall [topic_delete_accepted t, topic_delete_rejected t]
      in if a \<noteq> None then [sub1, (unsub, b)]
         else if b \<noteq> None then [sub1, sub2, (unsub, c)]
         else if c \<noteq> None then [sub1, sub2, pub, (unsub, token_error s (Suc (Suc (Suc n))))]
         else if fst (DeleteThingShadow t evs s) = Blocks then [sub1, sub2, pub]
         else [sub1, sub2, pub, (unsub, token_error s (Suc (Suc (Suc n))))])"
  by (simp add: DeleteThingShadow_def transport_defs Let_def split: select_result.splits option.splits)

lemma GetThingShadow_subscribe_fails:
  "token_error s (length (calls s)) = Some e \<Longrightarrow>
     fst (GetThingShadow t evs s) = Returns (None, Some e)"
  "token_error s (length (calls s)) = None \<Longrightarrow> token_error s (Suc (length (calls s))) = Some e \<Longrightarrow>
     fst (GetThingShadow t evs s) = Returns (None, Some e)"
  by (simp_all add: GetThingShadow_def transport_defs Let_def)

lemma DeleteThingShadow_subscribe_fails:
  "token_error s (length (calls s)) = Some e \<Longrightarrow>
     fst (DeleteThingShadow t evs s) = Returns (Some e)"
  "token_error s (length (calls s)) = None \<Longrightarrow> token_error s (Suc (length (calls s))) = Some e \<Longrightarrow>
     fst (DeleteThingShadow t evs s) = Returns (Some e)"
  by (simp_all add: DeleteThingShadow_def transport_defs Let_def)

lemma get_topics_differ: "topic_get_accepted t \<noteq> topic_get_rejected t"
  by (simp add: topic_get_accepted_def topic_get_rejected_def)

lemma delete_topics_differ: "topic_delete_accepted t \<noteq> topic_delete_rejected t"
  by (simp add: topic_delete_accepted_def topic_delete_rejected_def)

section \<open>Subscribe before publish\<close>

text \<open>
  Claim C1. In \<open>GetThingShadow\<close> and in \<open>DeleteThingShadow\<close>, a publish is only made after
  the accepted topic and the rejected topic were both subscribed with success; when both
  subscribes succeed the trigger \<open>{}\<close> is published on the request topic; and when a subscribe
  of the call fails, the call returns that very error and its log holds no publish.
\<close>

theorem subscribe_before_publish:
  "subscribed_before_publish (topic_get_accepted t) (topic_get_rejected t) False False
     (new_calls s (snd (GetThingShadow t evs s)))
   \<and> (token_error s (length (calls s)) = None \<and> token_error s (Suc (length (calls s))) = None \<longrightarrow>
        (PublishCall (topic_get t) ''{}'', token_error s (Suc (Suc (length (calls s)))))
          \<in> set (new_calls s (snd (GetThingShadow t evs s))))
   \<and> ((SubscribeCall tp h, Some e) \<in> set (new_calls s (snd (GetThingShadow t evs s))) \<longrightarrow>
        fst (GetThingShadow t evs s) = Returns (None, Some e)
        \<and> \<not> list_ex is_publish (new_calls s (snd (GetThingShadow t evs s))))
   \<and> subscribed_before_publish (topic_delete_accepted t) (topic_delete_rejected t) False False
     (new_calls s (snd (DeleteThingShadow t evs s)))
   \<and> (token_error s (length (calls s)) = None \<and> token_error s (Suc (length (calls s))) = None \<longrightarrow>
        (PublishCall (topic_delete t) ''{}'', token_error s (Suc (Suc (length (calls s)))))
          \<in> set (new_calls s (snd (DeleteThingShadow t evs s))))
   \<and> ((SubscribeCall tp h, Some e) \<in> set (new_calls s (snd (DeleteThingShadow t evs s))) \<longrightarrow>
        fst (DeleteThingShadow t evs s) = Returns (Some e)
        \<and> \<not> list_ex is_publish (new_calls s (snd (DeleteThingShadow t evs s))))"
proof -
  have g: "subscribed_before_publish (topic_get_accepted t) (topic_get_rejected t) False False
     (new_calls s (snd (GetThingShadow t evs s)))
   \<and> (token_error s (length (calls s)) = None \<and> token_error s (Suc (length (calls s))) = None \<longrightarrow>
        (PublishCall (topic_get t) ''{}'', token_error s (Suc (Suc (length (calls s)))))
          \<in> set (new_calls s (snd (GetThingShadow t evs s))))
   \<and> ((SubscribeCall tp h, Some e) \<in> set (new_calls s (snd (GetThingShadow t evs s))) \<longrightarrow>
        fst (GetThingShadow t evs s) = Returns (None, Some e)
        \<and> \<not> list_ex is_publish (new_calls s (snd (GetThingShadow t evs s))))"
    by (auto simp add: GetThingShadow_new_calls Let_def GetThingShadow_subscribe_fails
        get_topics_differ)
  have d: "subscribed_before_publish (topic_delete_accepted t) (topic_delete_rejected t) False False
     (new_calls s (snd (DeleteThingShadow t evs s)))
   \<and> (token_error s (length (calls s)) = None \<and> token_error s (Suc (length (calls s))) = None \<longrightarrow>
        (PublishCall (topic_delete t) ''{}'', token_error s (Suc (Suc (length (calls s)))))
          \<in> set (new_calls s (snd (DeleteThingShadow t evs s))))
   \<and> ((SubscribeCall tp h, Some e) \<in> set (new_calls s (snd (DeleteThingShadow t evs s))) \<longrightarrow>
        fst (DeleteThingShadow t evs s) = Returns (Some e)
        \<and> \<not> list_ex is_publish (new_calls s (snd (DeleteThingShadow t evs s))))"
    by (auto simp add: DeleteThingShadow_new_calls Let_def DeleteThingShadow_subscribe_fails
        delete_topics_differ)
  from g d show ?thesis by blast
qed

text \<open>
  The second subscribe of a call is refused by a transport that is no longer connected:
  the call returns the refusal and publishes nothing.
\<close>

theorem subscribe_before_publish_witness:
  "fst (GetThingShadow thing_t [] dropped_client) = Returns (None, Some (LibError ''Not Connected''))
   \<and> \<not> list_ex is_publish (new_calls dropped_client (snd (GetThingShadow thing_t [] dropped_client)))
   \<and> (PublishCall (topic_delete thing_t) ''{}'', None)
        \<in> set (new_calls connected_client (snd (DeleteThingShadow thing_t [] connected_client)))"
proof -
  have refused: "(SubscribeCall (topic_get_rejected thing_t) (SendError 1), Some (LibError ''Not Connected''))
     \<in> set (new_calls dropped_client (snd (GetThingShadow thing_t [] dropped_client)))"
    by (simp add: GetThingShadow_new_calls dropped_client_def refusing_second_def fresh_client_def)
  have ok: "token_error connected_client (length (calls connected_client)) = None
   \<and> token_error connected_client (Suc (length (calls connected_client))) = None"
    "token_error connected_client (Suc (Suc (length (calls connected_client)))) = None"
    by (simp_all add: connected_client_def fresh_client_def acknowledging_def)
  from refused
    subscribe_before_publish [of thing_t dropped_client "[]" "topic_get_rejected thing_t"
      "SendError 1" "LibError ''Not Connected''"]
  have a: "fst (GetThingShadow thing_t [] dropped_client) = Returns (None, Some (LibError ''Not Connected''))
     \<and> \<not> list_ex is_publish (new_calls dropped_client (snd (GetThingShadow thing_t [] dropped_client)))"
    by blast
  from ok(1) subscribe_before_publish [of thing_t connected_client "[]"]
  have "(PublishCall (topic_delete thing_t) ''{}'',
          token_error connected_client (Suc (Suc (length (calls connected_client)))))
        \<in> set (new_calls connected_client (snd (DeleteThingShadow thing_t [] connected_client)))"
    by blast
  with ok(2) have b: "(PublishCall (topic_delete thing_t) ''{}'', None)
        \<in> set (new_calls connected_client (snd (DeleteThingShadow thing_t [] connected_client)))"
    by simp
  from a b show ?thesis by blast
qed

section \<open>Unsubscribe on every return\<close>













section \<open>The first sink decides\<close>











section \<open>\<open>NewThing\<close> and the certificate\<close>

text \<open>
  Claim C4 at a failing input. The certificate file is missing, the CA file is read and the
  broker accepts the connection: \<open>NewThing\<close> returns a thing and no error, made with the
  empty certificate, although loading the key pair failed.
\<close>

theorem NewThing_ignores_certificate_error:
  "NewThing some_key_pair ''broker.example'' ''t'' missing_certificate
     = (Some (\<lparr>Servers = [''ssl://broker.example:8883''], MaxReconnectInterval = 1, ClientID = ''t'',
               TLSConfig = \<lparr>Certificates = [[]], RootCAs = [''-----BEGIN CERTIFICATE-----'']\<rparr>\<rparr>,
             \<lparr>thingName = ''t''\<rparr>), None)
   \<and> LoadX509KeyPair missing_certificate (CertificatePath some_key_pair) (PrivateKeyPath some_key_pair)
       = Inl (LibError ''open cert.pem: no such file or directory'')"
  by (simp add: NewThing_def missing_certificate_def some_key_pair_def)


section \<open>Topics\<close>



lemma join_slash_Cons: "ys \<noteq> [] \<Longrightarrow> join_slash (x # ys) = x @ CHR ''/'' # join_slash ys"
  by (cases ys) auto

lemma join_slash_append:
  "xs \<noteq> [] \<Longrightarrow> ys \<noteq> [] \<Longrightarrow> join_slash (xs @ ys) = join_slash xs @ CHR ''/'' # join_slash ys"
  by (induction xs rule: join_slash.induct) (auto simp: join_slash_Cons)

















section \<open>Updates\<close>





section \<open>A subscription acquired in part\<close>

text \<open>
  Claim C9. When \<open>SubscribeForThingShadowChanges\<close> has its subscribe of the update-accepted
  topic acknowledged and its subscribe of the update-rejected topic refused, it returns the
  refusal with both channels \<open>nil\<close>; the route of the update-accepted topic stays, and the
  call made no unsubscribe: its two subscribes are all it asked of the transport.
\<close>

theorem partial_subscription_stays:
  "token_error s (length (calls s)) = None \<and> token_error s (Suc (length (calls s))) = Some e \<longrightarrow>
     fst (SubscribeForThingShadowChanges t s) = (None, None, Some e)
     \<and> subs (snd (SubscribeForThingShadowChanges t s)) (topic_update_accepted t)
         = Some (SendPayload (next_chan s))
     \<and> new_calls s (snd (SubscribeForThingShadowChanges t s))
         = [(SubscribeCall (topic_update_accepted t) (SendPayload (next_chan s)), None),
            (SubscribeCall (topic_update_rejected t) (SendPayload (Suc (next_chan s))), Some e)]"
  by (simp add: SubscribeForThingShadowChanges_def transport_defs Let_def)

theorem partial_subscription_stays_witness:
  "fst (SubscribeForThingShadowChanges thing_t dropped_client)
     = (None, None, Some (LibError ''Not Connected''))
   \<and> subs (snd (SubscribeForThingShadowChanges thing_t dropped_client))
        (topic_update_accepted thing_t) = Some (SendPayload 0)"
proof -
  have h: "token_error dropped_client (length (calls dropped_client)) = None
         \<and> token_error dropped_client (Suc (length (calls dropped_client)))
           = Some (LibError ''Not Connected'')"
    by (simp add: dropped_client_def refusing_second_def fresh_client_def)
  have n: "next_chan dropped_client = 0"
    by (simp add: dropped_client_def fresh_client_def)
  from h partial_subscription_stays [of dropped_client "LibError ''Not Connected''" thing_t]
  show ?thesis unfolding n by blast
qed

section \<open>What a callback does\<close>





section \<open>\<open>GetCredentials\<close> and its errors\<close>

lemma sublist_at_end: "sublist b (x @ y @ z @ b)"
proof -
  have "suffix b ((x @ y @ z) @ b)" by (rule suffixI) simp
  then show ?thesis by (simp add: suffix_imp_sublist)
qed

lemma GetCredentials_answered:
  assumes "NewRequest_error w ''GET'' (svc_url svc) = None"
    and "Do w \<lparr>client_Certificates = [svc_tlsCert svc], Timeout_seconds = 10\<rparr>
        \<lparr>Method = ''GET'', URL = svc_url svc,
         Header = [(''x-amzn-iot-thingname'', svc_thingName svc)]\<rparr>
     = Inr \<lparr>StatusCode = code, Body = Inr body\<rparr>"
  shows "GetCredentials svc w =
     (if code \<noteq> 200 then
        (no_Output,
         Some (Errorf (''the request has failed with the status code: '' @ format_d code
                       @ ''; message: '' @ body)))
      else case json_Decode w body of
             Inl err \<Rightarrow>
               (no_Output,
                Some (Errorf (''failed to parse credentials response body: '' @ error_string err)))
           | Inr out \<Rightarrow> (out, None))"
  using assms by (simp add: GetCredentials_def Let_def)

text \<open>
  Claim C8, as the code has it. \<open>GetCredentials\<close> sends one request: method \<open>GET\<close>, the
  configured URL, the header \<open>x-amzn-iot-thingname\<close> with the thing name, through a client
  holding the service's certificate and a timeout of 10 seconds. When that request is
  answered with a readable body: on status 200 and a body the decoder accepts, the decoded
  credentials are returned with no error; on status 200 and a body the decoder refuses, the
  error carries the decoder's error; on any other status the error carries the status code
  and the body.
\<close>

theorem GetCredentials_outcomes:
  "NewRequest_error w ''GET'' (svc_url svc) = None \<and>
   Do w \<lparr>client_Certificates = [svc_tlsCert svc], Timeout_seconds = 10\<rparr>
        \<lparr>Method = ''GET'', URL = svc_url svc,
         Header = [(''x-amzn-iot-thingname'', svc_thingName svc)]\<rparr>
     = Inr \<lparr>StatusCode = code, Body = Inr body\<rparr> \<longrightarrow>
   (code = 200 \<and> json_Decode w body = Inr out \<longrightarrow> GetCredentials svc w = (out, None))
   \<and> (code = 200 \<and> json_Decode w body = Inl err \<longrightarrow>
        GetCredentials svc w
          = (no_Output,
             Some (Errorf (''failed to parse credentials response body: '' @ error_string err))))
   \<and> (code \<noteq> 200 \<longrightarrow>
        GetCredentials svc w
          = (no_Output,
             Some (Errorf (''the request has failed with the status code: '' @ format_d code
                           @ ''; message: '' @ body)))
        \<and> sublist body (''the request has failed with the status code: '' @ format_d code
                           @ ''; message: '' @ body))"
  using GetCredentials_answered [of w svc code body]
    sublist_at_end [of body "''the request has failed with the status code: ''" "format_d code"
      "''; message: ''"]
  by (simp del: append.simps append_Cons append_Nil)

theorem GetCredentials_outcomes_witness:
  "GetCredentials some_service credentials_answer = (some_Output, None)
   \<and> GetCredentials some_service forbidden_answer
       = (no_Output,
          Some (Errorf ''the request has failed with the status code: 403; message: Invalid thing name passed''))"
proof -
  have ok: "NewRequest_error credentials_answer ''GET'' (svc_url some_service) = None \<and>
     Do credentials_answer \<lparr>client_Certificates = [svc_tlsCert some_service], Timeout_seconds = 10\<rparr>
        \<lparr>Method = ''GET'', URL = svc_url some_service,
         Header = [(''x-amzn-iot-thingname'', svc_thingName some_service)]\<rparr>
     = Inr \<lparr>StatusCode = 200, Body = Inr ''{...}''\<rparr>"
    by (simp add: credentials_answer_def)
  have dec: "json_Decode credentials_answer ''{...}'' = Inr some_Output"
    by (simp add: credentials_answer_def)
  have no: "NewRequest_error forbidden_answer ''GET'' (svc_url some_service) = None \<and>
     Do forbidden_answer \<lparr>client_Certificates = [svc_tlsCert some_service], Timeout_seconds = 10\<rparr>
        \<lparr>Method = ''GET'', URL = svc_url some_service,
         Header = [(''x-amzn-iot-thingname'', svc_thingName some_service)]\<rparr>
     = Inr \<lparr>StatusCode = 403, Body = Inr ''Invalid thing name passed''\<rparr>"
    by (simp add: forbidden_answer_def)
  from ok dec GetCredentials_outcomes [of credentials_answer some_service 200 "''{...}''" some_Output]
  have a: "GetCredentials some_service credentials_answer = (some_Output, None)"
    by blast
  from no GetCredentials_outcomes [of forbidden_answer some_service 403 "''Invalid thing name passed''"]
  have b: "GetCredentials some_service forbidden_answer
       = (no_Output,
          Some (Errorf (''the request has failed with the status code: '' @ format_d 403
                        @ ''; message: '' @ ''Invalid thing name passed'')))"
    by simp
  from a b show ?thesis by (simp add: format_d_def)
qed

text \<open>
  The claim as it is written fails on a decode failure: the endpoint answers 200 with the
  body \<open>[1, 2\<close>, the decoder reports the end of the input, and the error returned holds the
  decoder's words and not the body.
\<close>

theorem decode_error_drops_body:
  "GetCredentials some_service truncated_answer
     = (no_Output, Some (Errorf ''failed to parse credentials response body: unexpected EOF''))
   \<and> \<not> sublist ''[1, 2'' ''failed to parse credentials response body: unexpected EOF''"
proof -
  have "GetCredentials some_service truncated_answer
     = (no_Output, Some (Errorf ''failed to parse credentials response body: unexpected EOF''))"
    by (simp add: GetCredentials_def some_service_def truncated_answer_def)
  moreover have "\<not> sublist ''[1, 2'' ''failed to parse credentials response body: unexpected EOF''"
    by code_simp
  ultimately show ?thesis by blast
qed

section \<open>No sink is ever closed\<close>








end
